theory Spec2Isabelle
  imports Main "HOL-Library.Word" "HOL-Library.AList"
begin

unbundle bit_operations_syntax

section \<open>Run-time panics\<close>

text \<open>
  The Go run-time faults the modelled code can raise. A function that can fault returns
  \<open>panic + 'a\<close>, with \<open>Inl\<close> the fault.
\<close>

datatype panic =
    NilDereference
  | SendOnClosedChannel
  | CloseOfClosedChannel
  | MakeChanSizeOutOfRange
  | DivideByZero
  | IndexOutOfRange

section \<open>The sharded map (02-concurrent-map-with-sharded-locks)\<close>

text \<open>
  Go's \<open>int\<close> and \<open>uint64\<close> are 64-bit words (64-bit targets); \<open>int\<close> is read in two's
  complement, so \<open>shardCount < 1\<close> is the signed comparison. The type switch of
  \<open>getShardIndex\<close> ranges over the dynamic type of the key, which the datatype \<open>key\<close>
  lists: a string is its bytes, and the \<open>default\<close> branch sees the bytes of the key's
  memory representation.
\<close>

type_synonym go_int = "64 word"
type_synonym uint64 = "64 word"
type_synonym byte = "8 word"

datatype key =
    KString "byte list"
  | KInt go_int
  | KInt64 "64 word"
  | KUint64 uint64
  | KUint32 "32 word"
  | KInt32 "32 word"
  | KOther "byte list"

text \<open>
  The locks of \<open>shardMutex\<close> are left out: the operations are modelled one at a time. A
  shard (a Go map) is an association list with at most one entry per key.
\<close>

record 'v ShardedMap =
  shards :: "(key \<times> 'v) list list"
  shardCount :: uint64

definition NewShardedMap :: "go_int \<Rightarrow> 'v ShardedMap" where
  "NewShardedMap shardCount0 =
     (let shardCount1 = (if shardCount0 <s 1 then 1 else shardCount0)
      in \<lparr> shards = replicate (unat shardCount1) [], shardCount = shardCount1 \<rparr>)"

definition offset64 :: uint64 where
  "offset64 = 14695981039346656037"

definition prime64 :: uint64 where
  "prime64 = 1099511628211"

fun fnv64aLoop :: "uint64 \<Rightarrow> byte list \<Rightarrow> uint64" where
  "fnv64aLoop hash [] = hash"
| "fnv64aLoop hash (b # bs) = fnv64aLoop ((hash XOR ucast b) * prime64) bs"

definition fnv64aHash :: "byte list \<Rightarrow> uint64" where
  "fnv64aHash data = fnv64aLoop offset64 data"

text \<open>
  The five mixing lines that \<open>getShardIndex\<close> repeats in each integer branch
  (\<open>hash ^= hash >> 33; hash *= 0xff51afd7ed558ccd; ...\<close>).
\<close>

definition mix64 :: "uint64 \<Rightarrow> uint64" where
  "mix64 h0 =
     (let h1 = h0 XOR drop_bit 33 h0;
          h2 = h1 * 0xff51afd7ed558ccd;
          h3 = h2 XOR drop_bit 33 h2;
          h4 = h3 * 0xc4ceb9fe1a85ec53
      in h4 XOR drop_bit 33 h4)"

fun keyHash :: "key \<Rightarrow> uint64" where
  "keyHash (KString bs) = fnv64aHash bs"
| "keyHash (KInt k) = mix64 k"
| "keyHash (KInt64 k) = mix64 k"
| "keyHash (KUint64 k) = mix64 k"
| "keyHash (KUint32 k) = mix64 (ucast k)"
| "keyHash (KInt32 k) = mix64 (scast k)"
| "keyHash (KOther bs) = fnv64aHash bs"

text \<open>\<open>hash % sm.shardCount\<close> faults on a zero divisor in Go.\<close>

definition getShardIndex :: "'v ShardedMap \<Rightarrow> key \<Rightarrow> panic + uint64" where
  "getShardIndex sm k =
     (if shardCount sm = 0 then Inl DivideByZero
      else Inr (keyHash k mod shardCount sm))"

definition Get :: "'v ShardedMap \<Rightarrow> key \<Rightarrow> panic + 'v option" where
  "Get sm k =
     (case getShardIndex sm k of
        Inl p \<Rightarrow> Inl p
      | Inr shardIndex \<Rightarrow>
          if unat shardIndex < length (shards sm)
          then Inr (map_of (shards sm ! unat shardIndex) k)
          else Inl IndexOutOfRange)"

definition Set :: "'v ShardedMap \<Rightarrow> key \<Rightarrow> 'v \<Rightarrow> panic + 'v ShardedMap" where
  "Set sm k v =
     (case getShardIndex sm k of
        Inl p \<Rightarrow> Inl p
      | Inr shardIndex \<Rightarrow>
          if unat shardIndex < length (shards sm)
          then Inr (sm\<lparr> shards := (shards sm)
                 [unat shardIndex := AList.update k v (shards sm ! unat shardIndex)] \<rparr>)
          else Inl IndexOutOfRange)"

definition Delete :: "'v ShardedMap \<Rightarrow> key \<Rightarrow> panic + 'v ShardedMap" where
  "Delete sm k =
     (case getShardIndex sm k of
        Inl p \<Rightarrow> Inl p
      | Inr shardIndex \<Rightarrow>
          if unat shardIndex < length (shards sm)
          then Inr (sm\<lparr> shards := (shards sm)
                 [unat shardIndex := AList.delete k (shards sm ! unat shardIndex)] \<rparr>)
          else Inl IndexOutOfRange)"

text \<open>
  \<open>Keys\<close> walks \<open>range sm.shards\<close>, so the indices it uses are those of the slice. Go
  leaves the order inside a shard open; the model lists a shard in the order of its
  association list.
\<close>

definition Keys :: "'v ShardedMap \<Rightarrow> key list" where
  "Keys sm = concat (map (\<lambda>i. map fst (shards sm ! i)) [0 ..< length (shards sm)])"

text \<open>A client's calls on one map, run in sequence until the first fault.\<close>

datatype 'v map_op = OpGet key | OpSet key 'v | OpDelete key | OpKeys

fun apply_op :: "'v map_op \<Rightarrow> 'v ShardedMap \<Rightarrow> panic + 'v ShardedMap" where
  "apply_op (OpGet k) sm = (case Get sm k of Inl p \<Rightarrow> Inl p | Inr _ \<Rightarrow> Inr sm)"
| "apply_op (OpSet k v) sm = Set sm k v"
| "apply_op (OpDelete k) sm = Delete sm k"
| "apply_op OpKeys sm = Inr sm"

fun apply_ops :: "'v map_op list \<Rightarrow> 'v ShardedMap \<Rightarrow> panic + 'v ShardedMap" where
  "apply_ops [] sm = Inr sm"
| "apply_ops (x # xs) sm =
     (case apply_op x sm of Inl p \<Rightarrow> Inl p | Inr sm' \<Rightarrow> apply_ops xs sm')"

definition shards_ok :: "'v ShardedMap \<Rightarrow> bool" where
  "shards_ok sm = (shardCount sm \<noteq> 0 \<and> length (shards sm) = unat (shardCount sm))"

section \<open>The graceful-shutdown server (03-graceful-shutdown-server)\<close>

subsection \<open>Errors, contexts and channels\<close>

text \<open>
  \<open>Err msg\<close> is an error made by \<open>fmt.Errorf\<close> or \<open>errors.New\<close> without a cause,
  \<open>Wrap msg e\<close> is \<open>fmt.Errorf("msg: %w", e)\<close>. A nil error is \<open>None\<close>.
\<close>

datatype error = Err string | Wrap string error

definition Canceled :: error where
  "Canceled = Err ''context canceled''"

definition DeadlineExceeded :: error where
  "DeadlineExceeded = Err ''context deadline exceeded''"

text \<open>
  A context is its \<open>Err()\<close>: \<open>None\<close> while it is live, the cancellation error once its
  \<open>Done()\<close> channel is closed.
\<close>

datatype go_context = Context (ctx_Err: "error option")

definition ctx_Done :: "go_context \<Rightarrow> bool" where
  "ctx_Done ctx = (ctx_Err ctx \<noteq> None)"

text \<open>
  A channel is its buffer, its capacity and its closed flag. An operation returns \<open>None\<close>
  when it would block. A send on a closed channel is ready and faults; a receive from a
  closed channel drains the buffer first and then yields \<open>ok = false\<close> (\<open>None\<close> as the
  value). The hand-over of a value to a receiver that is already waiting is the same as a
  buffered send followed by that receive, so it needs no case of its own as long as the
  capacity is not zero while receivers exist (the pool's queue has capacity \<open>2 * size\<close>
  for \<open>size\<close> workers).
\<close>

record 'a chan =
  buf :: "'a list"
  cap :: nat
  closed :: bool

definition make_chan :: "nat \<Rightarrow> 'a chan" where
  "make_chan n = \<lparr> buf = [], cap = n, closed = False \<rparr>"

definition chan_send :: "'a \<Rightarrow> 'a chan \<Rightarrow> (panic + 'a chan) option" where
  "chan_send v ch =
     (if closed ch then Some (Inl SendOnClosedChannel)
      else if length (buf ch) < cap ch then Some (Inr (ch\<lparr> buf := buf ch @ [v] \<rparr>))
      else None)"

definition chan_recv :: "'a chan \<Rightarrow> ('a option \<times> 'a chan) option" where
  "chan_recv ch =
     (case buf ch of
        v # vs \<Rightarrow> Some (Some v, ch\<lparr> buf := vs \<rparr>)
      | [] \<Rightarrow> if closed ch then Some (None, ch) else None)"

definition chan_close :: "'a chan \<Rightarrow> panic + 'a chan" where
  "chan_close ch = (if closed ch then Inl CloseOfClosedChannel else Inr (ch\<lparr> closed := True \<rparr>))"

text \<open>
  Go's \<open>select\<close> takes any one of the cases that are ready. Each function with a
  \<open>select\<close> therefore takes the case the scheduler picks as its first argument and
  returns \<open>None\<close> when that case is not ready.
\<close>

datatype submit_case = SubmitCtxDone | SubmitStopCh | SubmitSend
datatype worker_case = WorkerCtxDone | WorkerRequestCh
datatype proc_case = ProcTimeAfter | ProcCtxDone
datatype start_case = StartCtxDone | StartStopCh
datatype wait_case = WaitDone | WaitCtxDone

subsection \<open>dbConnection\<close>

text \<open>
  \<open>net.Conn\<close> is an interface; a value of it is modelled by what its \<open>Close\<close> method
  returns. Both ends of \<open>net.Pipe()\<close> close without error.
\<close>

datatype net_Conn = Conn (Close: "error option")

definition net_Pipe :: net_Conn where
  "net_Pipe = Conn None"

record dbConnection =
  conn :: "net_Conn option"

definition newDBConnection :: dbConnection where
  "newDBConnection = \<lparr> conn = None \<rparr>"

definition connect :: "dbConnection \<Rightarrow> error option \<times> dbConnection" where
  "connect db = (None, db\<lparr> conn := Some net_Pipe \<rparr>)"

definition close :: "dbConnection \<Rightarrow> error option \<times> dbConnection" where
  "close db =
     (case conn db of
        None \<Rightarrow> (None, db)
      | Some c \<Rightarrow>
          (case Close c of
             Some err \<Rightarrow> (Some (Wrap ''failed to close database connection'' err), db)
           | None \<Rightarrow> (None, db\<lparr> conn := None \<rparr>)))"

subsection \<open>workerPool\<close>

text \<open>
  A request is a pointer that may be nil (\<open>None\<close>); its response writer (a handle, or nil)
  and its \<open>*http.Request\<close> may be nil too. What \<open>processRequest\<close> writes to the writer
  is a \<open>response\<close>: \<open>OKProcessedBy id\<close> is status 200 with the body naming the worker,
  \<open>RequestCancelled\<close> is \<open>http.Error(w, "Request cancelled", 408)\<close>.
\<close>

record http_Request =
  URL :: "string option"
  Method :: string

record request =
  w :: "nat option"
  r :: "http_Request option"

datatype response = OKProcessedBy nat | RequestCancelled

datatype processed =
    SkippedNil
  | Finished "(nat \<times> response) option"
  | Cancelled "(nat \<times> response) option"

text \<open>
  The pool's \<open>size\<close> field is \<open>size_wp\<close> here, and its \<open>wg\<close> is \<open>workers_wg\<close>, the
  number of workers that have been added and have not returned yet. \<open>size\<close> and
  \<open>workers\<close> are Go \<open>int\<close>s: 64-bit words read in two's complement. The mutex and
  the logger are left out.
\<close>

record workerPool =
  size_wp :: go_int
  workers :: go_int
  requestCh :: "request option chan"
  stopCh :: "unit chan"
  workers_wg :: int

text \<open>
  \<open>make(chan *request, size*2)\<close>: the product wraps around at 64 bits, and \<open>make\<close>
  faults when the wrapped product is negative. So a size from \<open>2^62\<close> up faults like
  a small negative one, while the most negative sizes wrap to a capacity that \<open>make\<close>
  accepts (such a pool then starts no worker).
\<close>

definition newWorkerPool :: "go_int \<Rightarrow> panic + workerPool" where
  "newWorkerPool size0 =
     (if size0 * 2 <s 0 then Inl MakeChanSizeOutOfRange
      else Inr \<lparr> size_wp = size0, workers = 0, requestCh = make_chan (unat (size0 * 2)),
                 stopCh = make_chan 0, workers_wg = 0 \<rparr>)"

definition submit ::
  "submit_case \<Rightarrow> go_context \<Rightarrow> request option \<Rightarrow> workerPool \<Rightarrow>
   ((panic + error option) \<times> workerPool) option" where
  "submit c ctx req wp =
     (case c of
        SubmitCtxDone \<Rightarrow>
          (case ctx_Err ctx of None \<Rightarrow> None | Some e \<Rightarrow> Some (Inr (Some e), wp))
      | SubmitStopCh \<Rightarrow>
          (if closed (stopCh wp) then Some (Inr (Some (Err ''worker pool is shutting down'')), wp)
           else None)
      | SubmitSend \<Rightarrow>
          (case chan_send req (requestCh wp) of
             None \<Rightarrow> None
           | Some (Inl p) \<Rightarrow> Some (Inl p, wp)
           | Some (Inr ch) \<Rightarrow> Some (Inr None, wp\<lparr> requestCh := ch \<rparr>)))"

definition processRequest ::
  "proc_case \<Rightarrow> go_context \<Rightarrow> request option \<Rightarrow> nat \<Rightarrow> processed option" where
  "processRequest c ctx req workerID =
     (case req of
        None \<Rightarrow> Some SkippedNil
      | Some rq \<Rightarrow>
          (case r rq of
             None \<Rightarrow> Some SkippedNil
           | Some hr \<Rightarrow>
               (case w rq of
                  None \<Rightarrow>
                    (case c of
                       ProcTimeAfter \<Rightarrow> Some (Finished None)
                     | ProcCtxDone \<Rightarrow> if ctx_Done ctx then Some (Cancelled None) else None)
                | Some wr \<Rightarrow>
                    (case c of
                       ProcTimeAfter \<Rightarrow> Some (Finished (Some (wr, OKProcessedBy workerID)))
                     | ProcCtxDone \<Rightarrow>
                         if ctx_Done ctx then Some (Cancelled (Some (wr, RequestCancelled)))
                         else None))))"

text \<open>
  One turn of the \<open>for\<close> loop of \<open>worker\<close>, up to the call of \<open>processRequest\<close>: the
  worker returns, or it has taken a request that it now processes.
\<close>

datatype worker_turn = WReturn | WProcess "request option"

definition worker ::
  "worker_case \<Rightarrow> go_context \<Rightarrow> workerPool \<Rightarrow> (worker_turn \<times> workerPool) option" where
  "worker c ctx wp =
     (case c of
        WorkerCtxDone \<Rightarrow> if ctx_Done ctx then Some (WReturn, wp) else None
      | WorkerRequestCh \<Rightarrow>
          (case chan_recv (requestCh wp) of
             None \<Rightarrow> None
           | Some (None, ch) \<Rightarrow> Some (WReturn, wp)
           | Some (Some req, ch) \<Rightarrow> Some (WProcess req, wp\<lparr> requestCh := ch \<rparr>)))"

text \<open>
  \<open>start\<close> in its three phases: the loop that launches the workers (it runs \<open>size\<close>
  times, and not at all for a size below 1), the \<open>select\<close> followed by
  \<open>close(wp.requestCh)\<close>, and \<open>wp.wg.Wait()\<close>.
\<close>

definition start_spawn :: "workerPool \<Rightarrow> workerPool" where
  "start_spawn wp =
     wp\<lparr> workers := workers wp + (if 0 <s size_wp wp then size_wp wp else 0),
         workers_wg := workers_wg wp + max 0 (sint (size_wp wp)) \<rparr>"

definition start_select :: "start_case \<Rightarrow> go_context \<Rightarrow> workerPool \<Rightarrow> (panic + workerPool) option" where
  "start_select c ctx wp =
     (if (case c of StartCtxDone \<Rightarrow> ctx_Done ctx | StartStopCh \<Rightarrow> closed (stopCh wp))
      then Some (case chan_close (requestCh wp) of
                   Inl p \<Rightarrow> Inl p
                 | Inr ch \<Rightarrow> Inr (wp\<lparr> requestCh := ch \<rparr>))
      else None)"

definition start_wait :: "workerPool \<Rightarrow> bool" where
  "start_wait wp = (workers_wg wp = 0)"

text \<open>
  \<open>stop\<close>: \<open>close(wp.stopCh)\<close>, then the \<open>select\<close> between the workers being done and
  \<open>ctx.Done()\<close>. Which case fires is decided by the workers' progress and by the clock;
  it is an argument, together with \<open>ctx.Err()\<close>.
\<close>

definition stop :: "wait_case \<Rightarrow> error \<Rightarrow> workerPool \<Rightarrow> (panic + error option) \<times> workerPool" where
  "stop c ctxErr wp =
     (case chan_close (stopCh wp) of
        Inl p \<Rightarrow> (Inl p, wp)
      | Inr ch \<Rightarrow>
          (case c of
             WaitDone \<Rightarrow> (Inr None, wp\<lparr> stopCh := ch \<rparr>)
           | WaitCtxDone \<Rightarrow>
               (Inr (Some (Wrap ''worker pool stop timeout'' ctxErr)), wp\<lparr> stopCh := ch \<rparr>)))"

subsection \<open>The pool and its goroutines\<close>

text \<open>
  The goroutines of one pool, interleaved at the grain of their channel operations. A
  run is a list of actions chosen by the scheduler; an action that is not enabled (its
  goroutine is elsewhere, or its \<open>select\<close> case is not ready) yields \<open>None\<close>. The fields
  \<open>accepted\<close> (requests whose \<open>submit\<close> returned nil), \<open>attempts\<close> (calls of
  \<open>processRequest\<close>, with the worker's id), \<open>results\<close> (how each call ended) and
  \<open>faults\<close> (panics raised) record the history; the code has no such fields. The
  submitters use the pool's own context, as \<open>handleRequest\<close> does with \<open>s.rootCtx\<close>.
\<close>

datatype goroutine = AtSelect | InProcess "request option" | Returned

datatype start_state = NotStarted | StartAtSelect | StartWaiting | StartReturned

record pool_run =
  run_ctx :: go_context
  pool :: workerPool
  starter :: start_state
  goroutines :: "goroutine list"
  accepted :: "request option list"
  attempts :: "(nat \<times> request option) list"
  results :: "(nat \<times> request option \<times> processed) list"
  faults :: "panic list"

datatype action =
    ActGoStart
  | ActStartSelect start_case
  | ActStartWait
  | ActWorker nat worker_case
  | ActProcess nat proc_case
  | ActSubmit submit_case "request option"
  | ActRootCancel
  | ActStopSignal

definition init_run :: "workerPool \<Rightarrow> pool_run" where
  "init_run wp =
     \<lparr> run_ctx = Context None, pool = wp, starter = NotStarted, goroutines = [],
       accepted = [], attempts = [], results = [], faults = [] \<rparr>"

fun step :: "action \<Rightarrow> pool_run \<Rightarrow> pool_run option" where
  "step ActGoStart s =
     (if starter s = NotStarted
      then Some (s\<lparr> pool := start_spawn (pool s),
                    goroutines := replicate (nat (sint (size_wp (pool s)))) AtSelect,
                    starter := StartAtSelect \<rparr>)
      else None)"
| "step (ActStartSelect c) s =
     (if starter s = StartAtSelect
      then (case start_select c (run_ctx s) (pool s) of
              None \<Rightarrow> None
            | Some (Inl p) \<Rightarrow> Some (s\<lparr> starter := StartReturned, faults := faults s @ [p] \<rparr>)
            | Some (Inr wp') \<Rightarrow> Some (s\<lparr> pool := wp', starter := StartWaiting \<rparr>))
      else None)"
| "step ActStartWait s =
     (if starter s = StartWaiting \<and> start_wait (pool s)
      then Some (s\<lparr> starter := StartReturned \<rparr>)
      else None)"
| "step (ActWorker i c) s =
     (if i < length (goroutines s) \<and> goroutines s ! i = AtSelect
      then (case worker c (run_ctx s) (pool s) of
              None \<Rightarrow> None
            | Some (WReturn, wp') \<Rightarrow>
                Some (s\<lparr> pool := wp'\<lparr> workers_wg := workers_wg wp' - 1 \<rparr>,
                          goroutines := (goroutines s)[i := Returned] \<rparr>)
            | Some (WProcess req, wp') \<Rightarrow>
                Some (s\<lparr> pool := wp',
                          goroutines := (goroutines s)[i := InProcess req],
                          attempts := attempts s @ [(i, req)] \<rparr>))
      else None)"
| "step (ActProcess i c) s =
     (if i < length (goroutines s)
      then (case goroutines s ! i of
              InProcess req \<Rightarrow>
                (case processRequest c (run_ctx s) req i of
                   None \<Rightarrow> None
                 | Some res \<Rightarrow>
                     Some (s\<lparr> goroutines := (goroutines s)[i := AtSelect],
                               results := results s @ [(i, req, res)] \<rparr>))
            | _ \<Rightarrow> None)
      else None)"
| "step (ActSubmit c req) s =
     (case submit c (run_ctx s) req (pool s) of
        None \<Rightarrow> None
      | Some (Inl p, wp') \<Rightarrow> Some (s\<lparr> faults := faults s @ [p] \<rparr>)
      | Some (Inr None, wp') \<Rightarrow> Some (s\<lparr> pool := wp', accepted := accepted s @ [req] \<rparr>)
      | Some (Inr (Some e), wp') \<Rightarrow> Some (s\<lparr> pool := wp' \<rparr>))"
| "step ActRootCancel s =
     Some (if ctx_Done (run_ctx s) then s else s\<lparr> run_ctx := Context (Some Canceled) \<rparr>)"
| "step ActStopSignal s =
     (case chan_close (stopCh (pool s)) of
        Inl p \<Rightarrow> Some (s\<lparr> faults := faults s @ [p] \<rparr>)
      | Inr ch \<Rightarrow> Some (s\<lparr> pool := (pool s)\<lparr> stopCh := ch \<rparr> \<rparr>))"

fun exec :: "action list \<Rightarrow> pool_run \<Rightarrow> pool_run option" where
  "exec [] s = Some s"
| "exec (a # as) s = (case step a s of None \<Rightarrow> None | Some s' \<Rightarrow> exec as s')"

subsection \<open>Server\<close>

text \<open>
  The Server's pointer fields are \<open>None\<close> while nil, and they hold what the Server's own
  calls make of the components; what the launched goroutines do to the pool meanwhile is
  the subject of the pool runs above. Logging is left out (the Config's logger is taken
  to be non-nil), and the \<open>http.Server\<close> is its address and its shutdown flag. The
  counter of the Server's \<open>wg\<close> goes up before each \<open>go\<close> statement of \<open>Start\<close> and
  down whenever one of those goroutines returns, which is not a step of \<open>Start\<close> or
  \<open>Stop\<close>; in its place \<open>spawned\<close> lists the goroutines launched (each after its
  \<open>s.wg.Add(1)\<close>), and the outcome of waiting for them is an input of \<open>Stop\<close>.
  \<open>trace\<close> lists the steps of the shutdown protocol that were executed, in order. The
  code has neither \<open>spawned\<close> nor \<open>trace\<close>. Durations are \<open>int64\<close>.
\<close>

record Config =
  Port :: string
  WorkerPoolSize :: go_int
  RequestTimeout :: "64 word"
  ShutdownTimeout :: "64 word"

record http_Server =
  Addr :: string
  inShutdown :: bool

record cacheWarmer =
  ticker_seconds :: nat

datatype launched = CacheWarmerStart | WorkerPoolStart | ListenAndServe

datatype event =
    EvRootCancel
  | EvIngressShutdown
  | EvPoolStopSignal
  | EvPoolWaited wait_case
  | EvGoroutinesWaited wait_case
  | EvResourceClose
  | EvShutdownChClosed

record Server =
  config :: Config
  httpServer :: "http_Server option"
  workerPool :: "workerPool option"
  cacheWarmer :: "cacheWarmer option"
  dbConn :: "dbConnection option"
  shutdownCh :: "unit chan"
  shutdownOnce :: bool
  rootCtx :: go_context
  spawned :: "launched list"
  trace :: "event list"

definition NewServer :: "Config \<Rightarrow> Server" where
  "NewServer cfg =
     \<lparr> config = cfg, httpServer = None, workerPool = None, cacheWarmer = None,
       dbConn = None, shutdownCh = make_chan 0, shutdownOnce = False,
       rootCtx = Context None, spawned = [], trace = [] \<rparr>"

definition newCacheWarmer :: cacheWarmer where
  "newCacheWarmer = \<lparr> ticker_seconds = 30 \<rparr>"

text \<open>
  \<open>Start\<close>. The branch of lines 57 to 59 is kept as it is written, although \<open>connect\<close>
  never returns an error.
\<close>

definition Start :: "Server \<Rightarrow> (panic + error option) \<times> Server" where
  "Start s =
     (let (cerr, db) = connect newDBConnection;
          s1 = s\<lparr> dbConn := Some db \<rparr>
      in case cerr of
           Some err \<Rightarrow> (Inr (Some (Wrap ''failed to connect to database'' err)), s1)
         | None \<Rightarrow>
             (let s2 = s1\<lparr> cacheWarmer := Some newCacheWarmer,
                           spawned := spawned s1 @ [CacheWarmerStart] \<rparr>
              in case newWorkerPool (WorkerPoolSize (config s2)) of
                   Inl p \<Rightarrow> (Inl p, s2)
                 | Inr wp \<Rightarrow>
                     (let s3 = s2\<lparr> workerPool := Some wp,
                                   spawned := spawned s2 @ [WorkerPoolStart] \<rparr>;
                          s4 = s3\<lparr> httpServer :=
                                     Some \<lparr> Addr = '':'' @ Port (config s3), inShutdown = False \<rparr>,
                                   spawned := spawned s3 @ [ListenAndServe] \<rparr>
                      in (Inr None, s4))))"

text \<open>
  What the world decides during \<open>Stop\<close>: the result of \<open>httpServer.Shutdown\<close>, which
  case of the two bounded waits fires (the workers' and the goroutines' progress against
  the deadline of \<open>shutdownCtx\<close>), and \<open>shutdownCtx.Err()\<close>.
\<close>

record stop_env =
  http_Shutdown :: "error option"
  pool_stop_case :: wait_case
  wg_wait_case :: wait_case
  shutdownCtx_Err :: error

text \<open>
  The closure that \<open>Stop\<close> hands to \<open>shutdownOnce.Do\<close>, statement by statement. Each
  step takes the Server and the current \<open>shutdownErr\<close>; a fault ends the closure with the
  Server as it is at that point.
\<close>

definition and_then ::
  "(panic + 'a) \<times> 's \<Rightarrow> ('a \<Rightarrow> 's \<Rightarrow> (panic + 'b) \<times> 's) \<Rightarrow> (panic + 'b) \<times> 's" where
  "and_then m f = (case m of (Inl p, s) \<Rightarrow> (Inl p, s) | (Inr a, s) \<Rightarrow> f a s)"

definition cancel_root :: "Server \<Rightarrow> (panic + error option) \<times> Server" where
  "cancel_root s =
     (Inr None,
      s\<lparr> rootCtx := (if ctx_Done (rootCtx s) then rootCtx s else Context (Some Canceled)),
         trace := trace s @ [EvRootCancel] \<rparr>)"

definition stop_accepting ::
  "stop_env \<Rightarrow> error option \<Rightarrow> Server \<Rightarrow> (panic + error option) \<times> Server" where
  "stop_accepting env shutdownErr s =
     (case httpServer s of
        None \<Rightarrow> (Inl NilDereference, s)
      | Some hs \<Rightarrow>
          (let s' = s\<lparr> httpServer := Some (hs\<lparr> inShutdown := True \<rparr>),
                       trace := trace s @ [EvIngressShutdown] \<rparr>
           in case http_Shutdown env of
                Some err \<Rightarrow> (Inr (Some (Wrap ''HTTP server shutdown'' err)), s')
              | None \<Rightarrow> (Inr shutdownErr, s')))"

definition drain_pool ::
  "stop_env \<Rightarrow> error option \<Rightarrow> Server \<Rightarrow> (panic + error option) \<times> Server" where
  "drain_pool env shutdownErr s =
     (case workerPool s of
        None \<Rightarrow> (Inl NilDereference, s)
      | Some wp \<Rightarrow>
          (case stop (pool_stop_case env) (shutdownCtx_Err env) wp of
             (Inl p, wp') \<Rightarrow> (Inl p, s)
           | (Inr werr, wp') \<Rightarrow>
               (let s' = s\<lparr> workerPool := Some wp',
                            trace := trace s @ [EvPoolStopSignal, EvPoolWaited (pool_stop_case env)] \<rparr>
                in case werr of
                     Some err \<Rightarrow>
                       (Inr (if shutdownErr = None then Some (Wrap ''worker pool shutdown'' err)
                             else shutdownErr), s')
                   | None \<Rightarrow> (Inr shutdownErr, s'))))"

definition wait_goroutines ::
  "stop_env \<Rightarrow> error option \<Rightarrow> Server \<Rightarrow> (panic + error option) \<times> Server" where
  "wait_goroutines env shutdownErr s =
     (let s' = s\<lparr> trace := trace s @ [EvGoroutinesWaited (wg_wait_case env)] \<rparr>
      in case wg_wait_case env of
           WaitDone \<Rightarrow> (Inr shutdownErr, s')
         | WaitCtxDone \<Rightarrow>
             (Inr (if shutdownErr = None then Some (Err ''shutdown timeout exceeded'')
                   else shutdownErr), s'))"

definition close_db :: "error option \<Rightarrow> Server \<Rightarrow> (panic + error option) \<times> Server" where
  "close_db shutdownErr s =
     (case dbConn s of
        None \<Rightarrow> (Inl NilDereference, s)
      | Some db \<Rightarrow>
          (let (cerr, db') = close db;
               s' = s\<lparr> dbConn := Some db', trace := trace s @ [EvResourceClose] \<rparr>
           in case cerr of
                Some err \<Rightarrow>
                  (Inr (if shutdownErr = None then Some (Wrap ''database close'' err)
                        else shutdownErr), s')
              | None \<Rightarrow> (Inr shutdownErr, s')))"

definition close_shutdownCh :: "error option \<Rightarrow> Server \<Rightarrow> (panic + error option) \<times> Server" where
  "close_shutdownCh shutdownErr s =
     (case chan_close (shutdownCh s) of
        Inl p \<Rightarrow> (Inl p, s)
      | Inr ch \<Rightarrow> (Inr shutdownErr, s\<lparr> shutdownCh := ch, trace := trace s @ [EvShutdownChClosed] \<rparr>))"

definition shutdown :: "stop_env \<Rightarrow> Server \<Rightarrow> (panic + error option) \<times> Server" where
  "shutdown env s =
     and_then (and_then (and_then (and_then (and_then (cancel_root s)
       (stop_accepting env)) (drain_pool env)) (wait_goroutines env)) close_db) close_shutdownCh"

text \<open>
  \<open>Stop\<close>: \<open>shutdownErr\<close> is a local variable of the call, nil at first, and only the
  closure assigns it. \<open>sync.Once\<close> runs the closure in the first call only, marks itself
  done even when the closure faults, and makes a concurrent second caller wait for the
  first before it returns; so calls of \<open>Stop\<close> take effect one after the other, as here.
\<close>

definition Stop :: "stop_env \<Rightarrow> Server \<Rightarrow> (panic + error option) \<times> Server" where
  "Stop env s =
     (if shutdownOnce s then (Inr None, s)
      else shutdown env (s\<lparr> shutdownOnce := True \<rparr>))"

text \<open>The first position of an event in a trace; \<open>a\<close> comes strictly before \<open>b\<close>.\<close>

definition first_at :: "event \<Rightarrow> event list \<Rightarrow> nat" where
  "first_at a tr = length (takeWhile (\<lambda>e. e \<noteq> a) tr)"

definition strictly_before :: "event \<Rightarrow> event \<Rightarrow> event list \<Rightarrow> bool" where
  "strictly_before a b tr = (a \<in> set tr \<and> b \<in> set tr \<and> first_at a tr < first_at b tr)"

subsection \<open>Reading a shutdown\<close>

text \<open>
  The error that \<open>Stop\<close>'s closure aggregates is the first one of its four steps in
  order (each later assignment is guarded by \<open>shutdownErr == nil\<close>, and the HTTP step
  comes first), and the closure leaves seven events on the trace.
\<close>

fun first_error :: "error option list \<Rightarrow> error option" where
  "first_error [] = None"
| "first_error (None # es) = first_error es"
| "first_error (Some e # es) = Some e"

definition shutdown_errors :: "stop_env \<Rightarrow> dbConnection \<Rightarrow> error option list" where
  "shutdown_errors env db =
     [map_option (Wrap ''HTTP server shutdown'') (http_Shutdown env),
      (case pool_stop_case env of
         WaitDone \<Rightarrow> None
       | WaitCtxDone \<Rightarrow>
           Some (Wrap ''worker pool shutdown''
                  (Wrap ''worker pool stop timeout'' (shutdownCtx_Err env)))),
      (case wg_wait_case env of
         WaitDone \<Rightarrow> None
       | WaitCtxDone \<Rightarrow> Some (Err ''shutdown timeout exceeded'')),
      map_option (Wrap ''database close'') (fst (close db))]"

definition shutdown_trace :: "stop_env \<Rightarrow> event list" where
  "shutdown_trace env =
     [EvRootCancel, EvIngressShutdown, EvPoolStopSignal, EvPoolWaited (pool_stop_case env),
      EvGoroutinesWaited (wg_wait_case env), EvResourceClose, EvShutdownChClosed]"

subsection \<open>Sample inputs\<close>

text \<open>
  The configuration of \<open>TestServer_ShutdownTimeout\<close> (durations in seconds), and four
  shutdowns: everything finishes in time; the wait for the goroutines runs into the
  deadline; the wait for the workers does; and the HTTP shutdown fails before the wait
  for the goroutines runs into the deadline.
\<close>

definition cfg0 :: Config where
  "cfg0 = \<lparr> Port = ''8082'', WorkerPoolSize = 2, RequestTimeout = 5, ShutdownTimeout = 2 \<rparr>"

definition env_done :: stop_env where
  "env_done =
     \<lparr> http_Shutdown = None, pool_stop_case = WaitDone, wg_wait_case = WaitDone,
       shutdownCtx_Err = DeadlineExceeded \<rparr>"

definition env_timeout :: stop_env where
  "env_timeout =
     \<lparr> http_Shutdown = None, pool_stop_case = WaitDone, wg_wait_case = WaitCtxDone,
       shutdownCtx_Err = DeadlineExceeded \<rparr>"




text \<open>
  A connection whose \<open>Close\<close> fails, two requests (the second without a response
  writer, as in \<open>TestWorkerPool_ChannelCoordination\<close>), the pool that
  \<open>newWorkerPool(1)\<close> builds, and two runs of that pool: one that is stopped through
  \<open>stopCh\<close> and drains, and one whose context is cancelled with a request in the queue.
\<close>

definition broken_conn :: net_Conn where
  "broken_conn = Conn (Some (Err ''i/o timeout''))"

definition rq1 :: "request option" where
  "rq1 = Some \<lparr> w = Some 1, r = Some \<lparr> URL = Some ''/a'', Method = ''GET'' \<rparr> \<rparr>"

definition rq2 :: "request option" where
  "rq2 = Some \<lparr> w = None, r = Some \<lparr> URL = None, Method = ''GET'' \<rparr> \<rparr>"

definition pool1 :: workerPool where
  "pool1 = \<lparr> size_wp = 1, workers = 0, requestCh = make_chan 2, stopCh = make_chan 0,
             workers_wg = 0 \<rparr>"

definition drain_run :: "action list" where
  "drain_run =
     [ActGoStart, ActSubmit SubmitSend rq1, ActSubmit SubmitSend rq2,
      ActWorker 0 WorkerRequestCh, ActProcess 0 ProcTimeAfter,
      ActStopSignal, ActStartSelect StartStopCh,
      ActWorker 0 WorkerRequestCh, ActProcess 0 ProcTimeAfter,
      ActWorker 0 WorkerRequestCh, ActStartWait]"

definition cancel_run :: "action list" where
  "cancel_run =
     [ActGoStart, ActSubmit SubmitSend rq1, ActRootCancel, ActWorker 0 WorkerCtxDone,
      ActStartSelect StartCtxDone, ActStartWait]"

subsection \<open>Invariants of a pool run\<close>

text \<open>
  \<open>queue_inv\<close>: the accepted requests are, in order, those handed to \<open>processRequest\<close>
  followed by those still in the queue. \<open>exit_inv\<close>: if some worker has returned, then
  the context is cancelled or the queue is closed and empty.
\<close>

definition queue_inv :: "pool_run \<Rightarrow> bool" where
  "queue_inv s = (accepted s = map snd (attempts s) @ buf (requestCh (pool s)))"

definition drained :: "pool_run \<Rightarrow> bool" where
  "drained s = (buf (requestCh (pool s)) = [] \<and> closed (requestCh (pool s)))"

definition exit_inv :: "pool_run \<Rightarrow> bool" where
  "exit_inv s = (Returned \<in> set (goroutines s) \<longrightarrow> ctx_Done (run_ctx s) \<or> drained s)"

section \<open>Properties of the sharded map\<close>

lemma go_int_not_less_1: "\<not> (n :: go_int) <s 1 \<Longrightarrow> n \<noteq> 0"
  by (auto simp: word_sless_alt)

lemma NewShardedMap_ok: "shards_ok (NewShardedMap n)"
  by (simp add: NewShardedMap_def shards_ok_def Let_def go_int_not_less_1)

lemma unat_mod_less_divisor: "c \<noteq> 0 \<Longrightarrow> unat ((h :: uint64) mod c) < unat c"
  by (simp add: unat_mod word_neq_0_conv unat_gt_0)

lemma getShardIndex_ok:
  assumes "shards_ok sm"
  shows "getShardIndex sm k = Inr (keyHash k mod shardCount sm)"
    and "unat (keyHash k mod shardCount sm) < length (shards sm)"
  using assms by (simp_all add: getShardIndex_def shards_ok_def unat_mod_less_divisor)

lemma Get_ok:
  "shards_ok sm \<Longrightarrow>
   Get sm k = Inr (map_of (shards sm ! unat (keyHash k mod shardCount sm)) k)"
  by (simp add: Get_def getShardIndex_ok)

lemma Set_ok:
  "shards_ok sm \<Longrightarrow> \<exists>sm'. Set sm k v = Inr sm' \<and> shards_ok sm'"
  by (simp add: Set_def getShardIndex_ok) (simp add: shards_ok_def)

lemma Delete_ok:
  "shards_ok sm \<Longrightarrow> \<exists>sm'. Delete sm k = Inr sm' \<and> shards_ok sm'"
  by (simp add: Delete_def getShardIndex_ok) (simp add: shards_ok_def)

lemma apply_op_ok:
  assumes ok: "shards_ok sm"
  shows "\<exists>sm'. apply_op x sm = Inr sm' \<and> shards_ok sm'"
proof (cases x)
  case (OpGet k)
  then show ?thesis using ok by (simp add: Get_ok)
next
  case (OpSet k v)
  then show ?thesis using Set_ok [OF ok, of k v] by simp
next
  case (OpDelete k)
  then show ?thesis using Delete_ok [OF ok, of k] by simp
next
  case OpKeys
  then show ?thesis using ok by simp
qed

lemma Keys_all_shards: "Keys sm = concat (map (map fst) (shards sm))"
proof -
  have "map (\<lambda>i. map fst (shards sm ! i)) [0 ..< length (shards sm)] =
        map (map fst) (map ((!) (shards sm)) [0 ..< length (shards sm)])"
    by simp
  then show ?thesis by (simp only: Keys_def map_nth)
qed

lemma apply_ops_ok:
  "shards_ok sm \<Longrightarrow> \<exists>sm'. apply_ops xs sm = Inr sm' \<and> shards_ok sm'"
proof (induction xs arbitrary: sm)
  case Nil
  then show ?case by simp
next
  case (Cons x xs)
  from apply_op_ok [OF Cons.prems, of x]
  obtain sm1 where s1: "apply_op x sm = Inr sm1" "shards_ok sm1" by blast
  from Cons.IH [OF s1(2)] s1(1) show ?case by simp
qed

text \<open>
  C10. For every \<open>shardCount\<close> argument, zero and negative ones included, \<open>NewShardedMap\<close>
  builds a map with at least one shard, and after any sequence of \<open>Get\<close>, \<open>Set\<close>,
  \<open>Delete\<close> and \<open>Keys\<close> calls (none of which faults) the map still has as many shards as
  its non-zero shard count, \<open>getShardIndex\<close> returns an index strictly below that count
  (no modulo by zero), \<open>Get\<close>, \<open>Set\<close> and \<open>Delete\<close> access a shard inside the slice, and
  \<open>Keys\<close> reads exactly the shards of the slice.
\<close>

theorem sharded_map_index_in_bounds:
  "1 \<le> length (shards (NewShardedMap n :: 'v ShardedMap)) \<and>
   (\<exists>sm :: 'v ShardedMap.
      apply_ops ops (NewShardedMap n) = Inr sm \<and>
      shardCount sm \<noteq> 0 \<and>
      length (shards sm) = unat (shardCount sm) \<and>
      (\<exists>i. getShardIndex sm k = Inr i \<and> i < shardCount sm \<and> unat i < length (shards sm)) \<and>
      (\<exists>r. Get sm k = Inr r) \<and>
      (\<exists>sm'. Set sm k v = Inr sm') \<and>
      (\<exists>sm'. Delete sm k = Inr sm') \<and>
      Keys sm = concat (map (map fst) (shards sm)))"
proof -
  have new: "shards_ok (NewShardedMap n :: 'v ShardedMap)"
    by (rule NewShardedMap_ok)
  have first: "1 \<le> length (shards (NewShardedMap n :: 'v ShardedMap))"
    using new by (simp add: shards_ok_def unat_gt_0 Suc_le_eq)
  from apply_ops_ok [OF new, of ops]
  obtain sm :: "'v ShardedMap" where
    run: "apply_ops ops (NewShardedMap n) = Inr sm" and ok: "shards_ok sm"
    by blast
  have idx: "\<exists>i. getShardIndex sm k = Inr i \<and> i < shardCount sm \<and> unat i < length (shards sm)"
    using ok getShardIndex_ok [OF ok, of k]
    by (simp add: shards_ok_def word_less_nat_alt)
  have keys: "Keys sm = concat (map (map fst) (shards sm))"
    by (rule Keys_all_shards)
  from ok have cnt: "shardCount sm \<noteq> 0" "length (shards sm) = unat (shardCount sm)"
    by (simp_all add: shards_ok_def)
  from Set_ok [OF ok, of k v] have set: "\<exists>sm'. Set sm k v = Inr sm'" by blast
  from Delete_ok [OF ok, of k] have del: "\<exists>sm'. Delete sm k = Inr sm'" by blast
  have get: "\<exists>r. Get sm k = Inr r" by (simp add: Get_ok [OF ok])
  from first run cnt idx get set del keys show ?thesis by blast
qed

section \<open>Properties of the Server\<close>

subsection \<open>Start\<close>

text \<open>
  \<open>Start\<close> has two outcomes: it faults in \<open>newWorkerPool\<close> when twice the configured
  pool size, wrapped to 64 bits, is negative (the database connection is open and the
  cache warmer is running by then), and otherwise it returns nil with every component
  assigned anew. It never returns an error, because \<open>connect\<close> never does.
\<close>

lemma Start_result:
  "Start s0 =
     (if WorkerPoolSize (config s0) * 2 <s 0
      then (Inl MakeChanSizeOutOfRange,
            s0\<lparr> dbConn := Some \<lparr> conn = Some net_Pipe \<rparr>,
                cacheWarmer := Some newCacheWarmer,
                spawned := spawned s0 @ [CacheWarmerStart] \<rparr>)
      else (Inr None,
            s0\<lparr> dbConn := Some \<lparr> conn = Some net_Pipe \<rparr>,
                cacheWarmer := Some newCacheWarmer,
                workerPool := Some \<lparr> size_wp = WorkerPoolSize (config s0), workers = 0,
                    requestCh = make_chan (unat (WorkerPoolSize (config s0) * 2)),
                    stopCh = make_chan 0, workers_wg = 0 \<rparr>,
                httpServer := Some \<lparr> Addr = '':'' @ Port (config s0), inShutdown = False \<rparr>,
                spawned := spawned s0 @ [CacheWarmerStart, WorkerPoolStart, ListenAndServe] \<rparr>))"
  by (simp add: Start_def connect_def newDBConnection_def newWorkerPool_def Let_def)

lemma Start_never_returns_error: "fst (Start s0) \<noteq> Inr (Some e)"
  by (simp add: Start_result)

lemma Start_ok:
  assumes "Start s0 = (Inr None, s)"
  shows "\<not> WorkerPoolSize (config s0) * 2 <s 0"
    and "s = s0\<lparr> dbConn := Some \<lparr> conn = Some net_Pipe \<rparr>,
                cacheWarmer := Some newCacheWarmer,
                workerPool := Some \<lparr> size_wp = WorkerPoolSize (config s0), workers = 0,
                    requestCh = make_chan (unat (WorkerPoolSize (config s0) * 2)),
                    stopCh = make_chan 0, workers_wg = 0 \<rparr>,
                httpServer := Some \<lparr> Addr = '':'' @ Port (config s0), inShutdown = False \<rparr>,
                spawned := spawned s0 @ [CacheWarmerStart, WorkerPoolStart, ListenAndServe] \<rparr>"
  using assms by (auto simp: Start_result split: if_splits)

text \<open>
  \<open>Stop\<close> on a Server whose \<open>Start\<close> was never called faults on the nil
  \<open>httpServer\<close>, after the root context has been cancelled.
\<close>

lemma Stop_before_Start:
  "Stop env (NewServer cfg) =
     (Inl NilDereference,
      (NewServer cfg)\<lparr> shutdownOnce := True, rootCtx := Context (Some Canceled),
                        trace := [EvRootCancel] \<rparr>)"
  by (simp add: NewServer_def Stop_def shutdown_def and_then_def cancel_root_def
      stop_accepting_def ctx_Done_def)

subsection \<open>Start followed by Stop\<close>

lemma shutdown_running:
  assumes "httpServer s = Some hs" "workerPool s = Some wp" "\<not> closed (stopCh wp)"
    "dbConn s = Some db" "\<not> closed (shutdownCh s)"
  shows "shutdown env s =
     (Inr (first_error (shutdown_errors env db)),
      s\<lparr> rootCtx := (if ctx_Done (rootCtx s) then rootCtx s else Context (Some Canceled)),
         httpServer := Some (hs\<lparr> inShutdown := True \<rparr>),
         workerPool := Some (wp\<lparr> stopCh := (stopCh wp)\<lparr> closed := True \<rparr> \<rparr>),
         dbConn := Some (snd (close db)),
         shutdownCh := (shutdownCh s)\<lparr> closed := True \<rparr>,
         trace := trace s @ shutdown_trace env \<rparr>)"
  using assms
  by (cases "http_Shutdown env"; cases "pool_stop_case env"; cases "wg_wait_case env";
      cases "close db"; cases "fst (close db)")
     (simp_all add: shutdown_def and_then_def cancel_root_def stop_accepting_def drain_pool_def
      wait_goroutines_def close_db_def close_shutdownCh_def stop_def chan_close_def
      shutdown_errors_def shutdown_trace_def Let_def)

lemma close_net_Pipe: "close \<lparr> conn = Some net_Pipe \<rparr> = (None, \<lparr> conn = None \<rparr>)"
  by (simp add: close_def net_Pipe_def)

lemma Stop_after_Start:
  assumes "Start s0 = (Inr None, s)" "\<not> shutdownOnce s0" "\<not> closed (shutdownCh s0)"
  shows "Stop env s =
     (Inr (first_error (shutdown_errors env \<lparr> conn = Some net_Pipe \<rparr>)),
      s\<lparr> shutdownOnce := True,
         rootCtx := (if ctx_Done (rootCtx s) then rootCtx s else Context (Some Canceled)),
         httpServer := Some \<lparr> Addr = '':'' @ Port (config s), inShutdown = True \<rparr>,
         workerPool := Some \<lparr> size_wp = WorkerPoolSize (config s), workers = 0,
                    requestCh = make_chan (unat (WorkerPoolSize (config s) * 2)),
                    stopCh = \<lparr> buf = [], cap = 0, closed = True \<rparr>, workers_wg = 0 \<rparr>,
         dbConn := Some \<lparr> conn = None \<rparr>,
         shutdownCh := (shutdownCh s)\<lparr> closed := True \<rparr>,
         trace := trace s @ shutdown_trace env \<rparr>)"
proof -
  note st = Start_ok(2) [OF assms(1)]
  let ?s = "s\<lparr> shutdownOnce := True \<rparr>"
  have "shutdown env ?s =
     (Inr (first_error (shutdown_errors env \<lparr> conn = Some net_Pipe \<rparr>)),
      ?s\<lparr> rootCtx := (if ctx_Done (rootCtx ?s) then rootCtx ?s else Context (Some Canceled)),
         httpServer := Some (\<lparr> Addr = '':'' @ Port (config s0), inShutdown = False \<rparr>\<lparr> inShutdown := True \<rparr>),
         workerPool := Some (\<lparr> size_wp = WorkerPoolSize (config s0), workers = 0,
                    requestCh = make_chan (unat (WorkerPoolSize (config s0) * 2)),
                    stopCh = make_chan 0, workers_wg = 0 \<rparr>\<lparr> stopCh := (stopCh \<lparr> size_wp = WorkerPoolSize (config s0), workers = 0,
                    requestCh = make_chan (unat (WorkerPoolSize (config s0) * 2)),
                    stopCh = make_chan 0, workers_wg = 0 \<rparr>)\<lparr> closed := True \<rparr> \<rparr>),
         dbConn := Some (snd (close \<lparr> conn = Some net_Pipe \<rparr>)),
         shutdownCh := (shutdownCh ?s)\<lparr> closed := True \<rparr>,
         trace := trace ?s @ shutdown_trace env \<rparr>)"
    by (rule shutdown_running) (use assms(3) in \<open>simp_all add: st make_chan_def\<close>)
  moreover have "Stop env s = shutdown env ?s"
    using assms(2) by (simp add: Stop_def st)
  ultimately show ?thesis
    by (simp add: close_net_Pipe make_chan_def) (simp add: st)
qed

lemma Stop_done: "shutdownOnce s \<Longrightarrow> Stop env s = (Inr None, s)"
  by (simp add: Stop_def)

lemma Start_NewServer_cfg0:
  "Start (NewServer cfg0) = (Inr None, snd (Start (NewServer cfg0))) \<and>
   \<not> shutdownOnce (NewServer cfg0) \<and> \<not> closed (shutdownCh (NewServer cfg0))"
  by (simp add: Start_result cfg0_def NewServer_def make_chan_def word_sless_alt)

subsection \<open>Repeated Stop\<close>

text \<open>
  C1, as the code has it. Let \<open>Start\<close> have returned nil on a Server that was not
  stopped before. The first \<open>Stop\<close> runs the shutdown protocol once (its seven steps
  are added to the trace, the root context is cancelled, the connection and
  \<open>shutdownCh\<close> are closed) and returns the aggregate error of that run, the error of
  the first step that failed. A second \<open>Stop\<close>, whatever the world would decide for it,
  runs nothing, leaves the Server as it is and returns nil.
\<close>

theorem Stop_twice:
  assumes "Start s0 = (Inr None, s)" "\<not> shutdownOnce s0" "\<not> closed (shutdownCh s0)"
  shows "fst (Stop env1 s) =
           Inr (first_error (shutdown_errors env1 \<lparr> conn = Some net_Pipe \<rparr>)) \<and>
         trace (snd (Stop env1 s)) = trace s @ shutdown_trace env1 \<and>
         shutdownOnce (snd (Stop env1 s)) \<and>
         ctx_Done (rootCtx (snd (Stop env1 s))) \<and>
         dbConn (snd (Stop env1 s)) = Some \<lparr> conn = None \<rparr> \<and>
         closed (shutdownCh (snd (Stop env1 s))) \<and>
         Stop env2 (snd (Stop env1 s)) = (Inr None, snd (Stop env1 s))"
  by (simp add: Stop_after_Start [OF assms] Stop_done ctx_Done_def)

text \<open>
  At the sample configuration, with the wait timing out in the first call: the first
  call reports the timeout, the second call returns nil and changes nothing.
\<close>

theorem Stop_twice_witness:
  "Start (NewServer cfg0) = (Inr None, snd (Start (NewServer cfg0))) \<and>
   \<not> shutdownOnce (NewServer cfg0) \<and> \<not> closed (shutdownCh (NewServer cfg0)) \<and>
   fst (Stop env_timeout (snd (Start (NewServer cfg0)))) =
     Inr (Some (Err ''shutdown timeout exceeded'')) \<and>
   trace (snd (Stop env_timeout (snd (Start (NewServer cfg0))))) =
     [EvRootCancel, EvIngressShutdown, EvPoolStopSignal, EvPoolWaited WaitDone,
      EvGoroutinesWaited WaitCtxDone, EvResourceClose, EvShutdownChClosed] \<and>
   Stop env_done (snd (Stop env_timeout (snd (Start (NewServer cfg0))))) =
     (Inr None, snd (Stop env_timeout (snd (Start (NewServer cfg0)))))"
proof -
  have a: "Start (NewServer cfg0) = (Inr None, snd (Start (NewServer cfg0)))"
    and b: "\<not> shutdownOnce (NewServer cfg0)" and c: "\<not> closed (shutdownCh (NewServer cfg0))"
    using Start_NewServer_cfg0 by simp_all
  have t: "trace (snd (Start (NewServer cfg0))) = []"
    by (simp add: Start_result NewServer_def)
  from Stop_twice [OF a b c, of env_timeout env_done] a b c t show ?thesis
    by (simp add: env_timeout_def shutdown_errors_def shutdown_trace_def close_net_Pipe)
qed

text \<open>
  C1 as stated fails: when the wait for the goroutines times out, the first \<open>Stop\<close>
  returns the timeout error and the second \<open>Stop\<close> returns nil, not that same error.
\<close>

theorem Stop_twice_counterexample:
  "fst (Stop env_timeout (snd (Start (NewServer cfg0)))) =
     Inr (Some (Err ''shutdown timeout exceeded'')) \<and>
   fst (Stop env_timeout (snd (Stop env_timeout (snd (Start (NewServer cfg0)))))) = Inr None"
proof -
  have a: "Start (NewServer cfg0) = (Inr None, snd (Start (NewServer cfg0)))"
    and b: "\<not> shutdownOnce (NewServer cfg0)" and c: "\<not> closed (shutdownCh (NewServer cfg0))"
    using Start_NewServer_cfg0 by simp_all
  show ?thesis
    by (simp add: Stop_after_Start [OF a b c] Stop_done)
       (simp add: env_timeout_def shutdown_errors_def close_net_Pipe)
qed

subsection \<open>Order of the shutdown steps\<close>

text \<open>
  C2, as the code has it. Let \<open>Start\<close> have returned nil on a Server that was not
  stopped before. \<open>Stop\<close> then executes its steps one after the other, each once: the
  root cancellation signal is cancelled first, strictly before the HTTP server is told
  to stop accepting, which is strictly before the pool's stop signal, which is strictly
  before the Resource Handle is closed, which is strictly before \<open>shutdownCh\<close> is
  closed. Afterwards each of these steps has taken effect on the Server: the root
  context is done, the HTTP server is in shutdown, \<open>stopCh\<close> is closed, the connection
  is closed, and \<open>shutdownCh\<close> is closed.
\<close>

theorem shutdown_order:
  assumes "Start s0 = (Inr None, s)" "\<not> shutdownOnce s0" "\<not> closed (shutdownCh s0)"
  shows "trace (snd (Stop env s)) =
           trace s @ [EvRootCancel, EvIngressShutdown, EvPoolStopSignal,
                      EvPoolWaited (pool_stop_case env), EvGoroutinesWaited (wg_wait_case env),
                      EvResourceClose, EvShutdownChClosed] \<and>
         strictly_before EvRootCancel EvIngressShutdown
           (drop (length (trace s)) (trace (snd (Stop env s)))) \<and>
         strictly_before EvIngressShutdown EvPoolStopSignal
           (drop (length (trace s)) (trace (snd (Stop env s)))) \<and>
         strictly_before EvPoolStopSignal EvResourceClose
           (drop (length (trace s)) (trace (snd (Stop env s)))) \<and>
         strictly_before EvResourceClose EvShutdownChClosed
           (drop (length (trace s)) (trace (snd (Stop env s)))) \<and>
         ctx_Done (rootCtx (snd (Stop env s))) \<and>
         map_option inShutdown (httpServer (snd (Stop env s))) = Some True \<and>
         map_option (closed \<circ> stopCh) (workerPool (snd (Stop env s))) = Some True \<and>
         dbConn (snd (Stop env s)) = Some \<lparr> conn = None \<rparr> \<and>
         closed (shutdownCh (snd (Stop env s)))"
  by (simp add: Stop_after_Start [OF assms] ctx_Done_def)
     (simp add: shutdown_trace_def strictly_before_def first_at_def)

text \<open>The order at the sample configuration, for a shutdown that finishes in time.\<close>

theorem shutdown_order_witness:
  "Start (NewServer cfg0) = (Inr None, snd (Start (NewServer cfg0))) \<and>
   \<not> shutdownOnce (NewServer cfg0) \<and> \<not> closed (shutdownCh (NewServer cfg0)) \<and>
   trace (snd (Stop env_done (snd (Start (NewServer cfg0))))) =
     [EvRootCancel, EvIngressShutdown, EvPoolStopSignal, EvPoolWaited WaitDone,
      EvGoroutinesWaited WaitDone, EvResourceClose, EvShutdownChClosed] \<and>
   strictly_before EvRootCancel EvIngressShutdown
     (trace (snd (Stop env_done (snd (Start (NewServer cfg0)))))) \<and>
   ctx_Done (rootCtx (snd (Stop env_done (snd (Start (NewServer cfg0))))))"
proof -
  have a: "Start (NewServer cfg0) = (Inr None, snd (Start (NewServer cfg0)))"
    and b: "\<not> shutdownOnce (NewServer cfg0)" and c: "\<not> closed (shutdownCh (NewServer cfg0))"
    using Start_NewServer_cfg0 by simp_all
  have t: "trace (snd (Start (NewServer cfg0))) = []"
    by (simp add: Start_result NewServer_def)
  from shutdown_order [OF a b c, of env_done] a b c show ?thesis
    by (simp add: t env_done_def strictly_before_def first_at_def)
qed

text \<open>
  C2 as stated fails: in the trace of \<open>Stop\<close> the ingress is not stopped before the root
  signal is cancelled (\<open>s.rootCancel()\<close> is the closure's first statement).
\<close>

theorem shutdown_order_counterexample:
  "\<not> strictly_before EvIngressShutdown EvRootCancel
       (trace (snd (Stop env_done (snd (Start (NewServer cfg0))))))"
proof -
  have a: "Start (NewServer cfg0) = (Inr None, snd (Start (NewServer cfg0)))"
    and b: "\<not> shutdownOnce (NewServer cfg0)" and c: "\<not> closed (shutdownCh (NewServer cfg0))"
    using Start_NewServer_cfg0 by simp_all
  have t: "trace (snd (Start (NewServer cfg0))) = []"
    by (simp add: Start_result NewServer_def)
  show ?thesis
    by (simp add: Stop_after_Start [OF a b c] t)
       (simp add: shutdown_trace_def strictly_before_def first_at_def)
qed

subsection \<open>The Resource Handle is closed whatever the waits give\<close>




subsection \<open>Start called twice\<close>

text \<open>
  C7, as the code has it. \<open>Start\<close> has no guard against a second call. Called again
  after a \<open>Start\<close> that returned nil, it returns nil and runs the whole start-up again:
  the cache warmer, the worker pool and the HTTP listener are launched a second time,
  and the Resource Handle, the pool, the HTTP server and the cache warmer are assigned
  anew (an open connection, a pool with its stop channel open, an HTTP server not in
  shutdown), whatever these fields held between the two calls.
\<close>

theorem Start_twice:
  assumes "Start s0 = (Inr None, s)"
  shows "fst (Start s) = Inr None \<and>
         spawned (snd (Start s)) =
           spawned s0 @ [CacheWarmerStart, WorkerPoolStart, ListenAndServe,
                         CacheWarmerStart, WorkerPoolStart, ListenAndServe] \<and>
         dbConn (snd (Start s)) = Some \<lparr> conn = Some net_Pipe \<rparr> \<and>
         map_option (closed \<circ> stopCh) (workerPool (snd (Start s))) = Some False \<and>
         map_option inShutdown (httpServer (snd (Start s))) = Some False \<and>
         (\<forall>d p h c. snd (Start (s\<lparr> dbConn := d, workerPool := p, httpServer := h,
                                    cacheWarmer := c \<rparr>)) = snd (Start s))"
  using Start_ok [OF assms]
  by (simp add: Start_result make_chan_def)

text \<open>The second \<open>Start\<close> at the sample configuration.\<close>

theorem Start_twice_witness:
  "Start (NewServer cfg0) = (Inr None, snd (Start (NewServer cfg0))) \<and>
   fst (Start (snd (Start (NewServer cfg0)))) = Inr None \<and>
   spawned (snd (Start (snd (Start (NewServer cfg0))))) =
     [CacheWarmerStart, WorkerPoolStart, ListenAndServe,
      CacheWarmerStart, WorkerPoolStart, ListenAndServe]"
proof -
  have a: "Start (NewServer cfg0) = (Inr None, snd (Start (NewServer cfg0)))"
    using Start_NewServer_cfg0 by simp
  from Start_twice [OF a] a show ?thesis
    by (simp add: NewServer_def)
qed

text \<open>
  C7 as stated fails: the second \<open>Start\<close> returns nil, and six goroutines have been
  launched.
\<close>

theorem Start_twice_counterexample:
  "fst (Start (snd (Start (NewServer cfg0)))) = Inr None \<and>
   length (spawned (snd (Start (snd (Start (NewServer cfg0)))))) = 6"
  by (simp add: Start_result NewServer_def cfg0_def word_sless_alt)

section \<open>Properties of dbConnection\<close>

text \<open>
  C5, as the code has it. \<open>close\<close> on a handle without a connection (unopened, or
  closed before) returns nil and changes nothing; on an open handle it returns the error
  of the underlying \<open>Close\<close>, wrapped, when there is one; and whenever \<open>close\<close> returns
  nil the handle is closed, so that a further \<open>close\<close> is a no-op that returns nil.
\<close>

theorem close_idempotent_on_success:
  "(conn db = None \<longrightarrow> close db = (None, db)) \<and>
   (\<forall>c. conn db = Some c \<longrightarrow>
      fst (close db) = map_option (Wrap ''failed to close database connection'') (Close c)) \<and>
   (fst (close db) = None \<longrightarrow>
      conn (snd (close db)) = None \<and> close (snd (close db)) = (None, snd (close db)))"
  by (auto simp: close_def split: option.splits)

text \<open>
  \<open>close\<close> on an unopened handle, on the handle that \<open>connect\<close> makes, and on a
  handle whose connection fails to close.
\<close>

theorem close_idempotent_on_success_witness:
  "close \<lparr> conn = None \<rparr> = (None, \<lparr> conn = None \<rparr>) \<and>
   close \<lparr> conn = Some net_Pipe \<rparr> = (None, \<lparr> conn = None \<rparr>) \<and>
   close (snd (close \<lparr> conn = Some net_Pipe \<rparr>)) = (None, \<lparr> conn = None \<rparr>) \<and>
   fst (close \<lparr> conn = Some broken_conn \<rparr>) =
     Some (Wrap ''failed to close database connection'' (Err ''i/o timeout''))"
  using close_idempotent_on_success [of "\<lparr> conn = None \<rparr>"]
    close_idempotent_on_success [of "\<lparr> conn = Some net_Pipe \<rparr>"]
    close_idempotent_on_success [of "\<lparr> conn = Some broken_conn \<rparr>"]
  by (simp add: net_Pipe_def broken_conn_def close_def)

text \<open>
  C5 as stated fails: when the underlying \<open>Close\<close> fails, \<open>close\<close> returns before
  \<open>db.conn = nil\<close>, the handle keeps its connection, and a second \<open>close\<close> calls the
  underlying \<open>Close\<close> again and returns its error.
\<close>

theorem close_failure_counterexample:
  "fst (close \<lparr> conn = Some broken_conn \<rparr>) =
     Some (Wrap ''failed to close database connection'' (Err ''i/o timeout'')) \<and>
   conn (snd (close \<lparr> conn = Some broken_conn \<rparr>)) = Some broken_conn \<and>
   fst (close (snd (close \<lparr> conn = Some broken_conn \<rparr>))) =
     Some (Wrap ''failed to close database connection'' (Err ''i/o timeout''))"
  by (simp add: close_def broken_conn_def)

section \<open>Properties of the worker pool\<close>

subsection \<open>processRequest\<close>

text \<open>
  C4, as the code has it. For a request that is not nil and has an \<open>*http.Request\<close>,
  \<open>processRequest\<close> waits for the first of two things: the 100 ms timer of the
  simulated work, after which the request is processed to completion (200 and the
  worker's id, when there is a writer), or the pool's cancellation signal, which is ready
  only once the pool's context is cancelled and which cuts the processing short (408
  "Request cancelled", when there is a writer). The request carries no deadline of its
  own.
\<close>

theorem processRequest_cut_short_by_pool:
  assumes "req = Some rq" "r rq = Some hr"
  shows "processRequest ProcTimeAfter ctx req i =
           Some (Finished (map_option (\<lambda>wr. (wr, OKProcessedBy i)) (w rq))) \<and>
         processRequest ProcCtxDone ctx req i =
           (if ctx_Done ctx then Some (Cancelled (map_option (\<lambda>wr. (wr, RequestCancelled)) (w rq)))
            else None)"
  using assms by (simp add: processRequest_def split: option.splits)

text \<open>Both cases on the first sample request, with the pool's context cancelled.\<close>

theorem processRequest_cut_short_by_pool_witness:
  "rq1 = Some \<lparr> w = Some 1, r = Some \<lparr> URL = Some ''/a'', Method = ''GET'' \<rparr> \<rparr> \<and>
   processRequest ProcTimeAfter (Context (Some Canceled)) rq1 0 =
     Some (Finished (Some (1, OKProcessedBy 0))) \<and>
   processRequest ProcCtxDone (Context (Some Canceled)) rq1 0 =
     Some (Cancelled (Some (1, RequestCancelled)))"
  using processRequest_cut_short_by_pool
    [of rq1 "\<lparr> w = Some 1, r = Some \<lparr> URL = Some ''/a'', Method = ''GET'' \<rparr> \<rparr>"
        "\<lparr> URL = Some ''/a'', Method = ''GET'' \<rparr>" "Context (Some Canceled)" 0]
  by (simp add: rq1_def ctx_Done_def)

text \<open>
  C4 as stated fails: a worker takes a request, the pool's context is cancelled while
  the request is being processed, and \<open>processRequest\<close> answers 408 instead of
  completing.
\<close>

theorem processRequest_counterexample:
  "newWorkerPool 1 = Inr pool1 \<and>
   map_option results
     (exec [ActGoStart, ActSubmit SubmitSend rq1, ActWorker 0 WorkerRequestCh, ActRootCancel,
            ActProcess 0 ProcCtxDone] (init_run pool1)) =
     Some [(0, rq1, Cancelled (Some (1, RequestCancelled)))]"
  by (simp add: newWorkerPool_def pool1_def make_chan_def init_run_def start_spawn_def word_sless_alt
      submit_def chan_send_def worker_def chan_recv_def processRequest_def rq1_def
      ctx_Done_def)

subsection \<open>submit\<close>

text \<open>
  While the queue is open, every return of \<open>submit\<close> is one of the three outcomes: the
  request is appended to the queue and nil is returned; or the context is cancelled and
  its error is returned with the pool unchanged; or \<open>stopCh\<close> is closed and the
  shutting-down error is returned with the pool unchanged.
\<close>

lemma submit_on_open_queue:
  assumes "\<not> closed (requestCh wp)" "submit c ctx req wp = Some (res, wp')"
  shows "(res = Inr None \<and> wp' = wp\<lparr> requestCh := (requestCh wp)\<lparr> buf := buf (requestCh wp) @ [req] \<rparr> \<rparr>) \<or>
         (res = Inr (ctx_Err ctx) \<and> ctx_Done ctx \<and> wp' = wp) \<or>
         (res = Inr (Some (Err ''worker pool is shutting down'')) \<and> closed (stopCh wp) \<and> wp' = wp)"
  using assms
  by (cases c) (auto simp: submit_def chan_send_def ctx_Done_def split: option.splits if_splits)

text \<open>
  C8. After the context is cancelled, \<open>start\<close> closes \<open>requestCh\<close>; a \<open>submit\<close> that
  comes then (with the same, cancelled context, as in \<open>handleRequest\<close>) may be scheduled
  onto its send case, which is ready on a closed channel and faults: \<open>submit\<close> neither
  returns the context's error nor enqueues.
\<close>

theorem submit_on_closed_queue:
  "newWorkerPool 1 = Inr pool1 \<and>
   map_option (\<lambda>s. (ctx_Done (run_ctx s), closed (requestCh (pool s)),
                    map_option fst (submit SubmitSend (run_ctx s) rq1 (pool s))))
     (exec [ActGoStart, ActRootCancel, ActStartSelect StartCtxDone] (init_run pool1)) =
     Some (True, True, Some (Inl SendOnClosedChannel))"
  by (simp add: newWorkerPool_def pool1_def make_chan_def init_run_def start_spawn_def word_sless_alt
      submit_def chan_send_def start_select_def chan_close_def ctx_Done_def)

subsection \<open>Workers and the queue\<close>

lemma worker_returns:
  "worker c ctx wp = Some (WReturn, wp') \<Longrightarrow>
   wp' = wp \<and> (ctx_Done ctx \<or> (buf (requestCh wp) = [] \<and> closed (requestCh wp)))"
  by (cases c) (auto simp: worker_def chan_recv_def split: if_splits list.splits)

lemma worker_takes:
  "worker c ctx wp = Some (WProcess req, wp') \<Longrightarrow>
   buf (requestCh wp) = req # buf (requestCh wp') \<and> closed (requestCh wp') = closed (requestCh wp)"
  by (cases c) (auto simp: worker_def chan_recv_def split: if_splits list.splits)

lemma submit_accepts:
  "submit c ctx req wp = Some (Inr None, wp') \<Longrightarrow>
   \<not> closed (requestCh wp) \<and> closed (requestCh wp') = closed (requestCh wp) \<and>
   buf (requestCh wp') = buf (requestCh wp) @ [req]"
  by (cases c) (auto simp: submit_def chan_send_def split: if_splits option.splits)

lemma submit_rejects:
  "submit c ctx req wp = Some (Inr (Some e), wp') \<Longrightarrow> wp' = wp"
  by (cases c) (auto simp: submit_def chan_send_def split: if_splits option.splits)

lemma start_select_closes:
  "start_select c ctx wp = Some (Inr wp') \<Longrightarrow>
   buf (requestCh wp') = buf (requestCh wp) \<and> closed (requestCh wp')"
  by (auto simp: start_select_def chan_close_def split: if_splits)

lemma step_queue_inv:
  assumes "queue_inv s" "step a s = Some s'"
  shows "queue_inv s'"
proof (cases a)
  case ActGoStart
  with assms show ?thesis
    by (auto simp: queue_inv_def start_spawn_def word_sless_alt split: if_splits)
next
  case (ActStartSelect c)
  with assms show ?thesis
    by (auto simp: queue_inv_def split: if_splits option.splits sum.splits
        dest!: start_select_closes)
next
  case ActStartWait
  with assms show ?thesis by (auto simp: queue_inv_def split: if_splits)
next
  case (ActWorker i c)
  with assms show ?thesis
    by (auto simp: queue_inv_def split: if_splits option.splits worker_turn.splits
        dest!: worker_returns worker_takes)
next
  case (ActProcess i c)
  with assms show ?thesis
    by (auto simp: queue_inv_def split: if_splits option.splits goroutine.splits)
next
  case (ActSubmit c req)
  with assms show ?thesis
    by (auto simp: queue_inv_def split: option.splits sum.splits
        dest!: submit_accepts submit_rejects)
next
  case ActRootCancel
  with assms show ?thesis by (auto simp: queue_inv_def)
next
  case ActStopSignal
  with assms show ?thesis by (auto simp: queue_inv_def split: sum.splits)
qed

lemma Returned_in_update:
  "Returned \<in> set (gs[i := g]) \<Longrightarrow> g \<noteq> Returned \<Longrightarrow> Returned \<in> set gs"
  using set_update_subset_insert [of gs i g] by auto

lemma step_exit_inv:
  assumes "exit_inv s" "step a s = Some s'"
  shows "exit_inv s'"
proof (cases a)
  case ActGoStart
  with assms show ?thesis
    by (auto simp: exit_inv_def split: if_splits)
next
  case (ActStartSelect c)
  with assms show ?thesis
    by (auto simp: exit_inv_def drained_def split: if_splits option.splits sum.splits
        dest!: start_select_closes)
next
  case ActStartWait
  with assms show ?thesis by (auto simp: exit_inv_def drained_def split: if_splits)
next
  case (ActWorker i c)
  with assms show ?thesis
    by (auto simp: exit_inv_def drained_def split: if_splits option.splits worker_turn.splits
        dest!: worker_returns worker_takes Returned_in_update)
next
  case (ActProcess i c)
  with assms show ?thesis
    by (auto simp: exit_inv_def drained_def split: if_splits option.splits goroutine.splits
        dest!: Returned_in_update)
next
  case (ActSubmit c req)
  with assms show ?thesis
    by (auto simp: exit_inv_def drained_def split: option.splits sum.splits
        dest!: submit_accepts submit_rejects)
next
  case ActRootCancel
  with assms show ?thesis by (auto simp: exit_inv_def drained_def ctx_Done_def)
next
  case ActStopSignal
  with assms show ?thesis by (auto simp: exit_inv_def drained_def split: sum.splits)
qed

lemma exec_inv:
  "queue_inv s \<Longrightarrow> exit_inv s \<Longrightarrow> exec acts s = Some s' \<Longrightarrow> queue_inv s' \<and> exit_inv s'"
proof (induction acts arbitrary: s)
  case Nil
  then show ?case by simp
next
  case (Cons a acts)
  then obtain s1 where s1: "step a s = Some s1" "exec acts s1 = Some s'"
    by (auto split: option.splits)
  from Cons.prems s1 have "queue_inv s1" "exit_inv s1"
    by (auto intro: step_queue_inv step_exit_inv)
  with Cons.IH s1 show ?case by blast
qed

lemma init_run_inv:
  "newWorkerPool n = Inr wp \<Longrightarrow> queue_inv (init_run wp) \<and> exit_inv (init_run wp)"
  by (auto simp: newWorkerPool_def init_run_def queue_inv_def exit_inv_def make_chan_def
      split: if_splits)

text \<open>
  C3, as the code has it. In every run of a pool made by \<open>newWorkerPool\<close>, the requests
  that \<open>submit\<close> accepted are, in order, the requests handed to \<open>processRequest\<close>
  followed by the requests still pending in the queue: an accepted request is taken at
  most once (exactly once or not yet), never twice. A worker returns only when it has
  seen the cancellation signal or found the queue closed and empty; so as long as the
  context is not cancelled, a worker that has returned left a fully drained queue.
\<close>

theorem accepted_items_taken_once:
  assumes "newWorkerPool n = Inr wp" "exec acts (init_run wp) = Some s"
  shows "accepted s = map snd (attempts s) @ buf (requestCh (pool s)) \<and>
         (distinct (accepted s) \<longrightarrow> distinct (map snd (attempts s))) \<and>
         (Returned \<in> set (goroutines s) \<longrightarrow> ctx_Done (run_ctx s) \<or> drained s)"
proof -
  from init_run_inv [OF assms(1)] exec_inv [OF _ _ assms(2)]
  have inv: "queue_inv s" "exit_inv s" by blast+
  from inv(1) have q: "accepted s = map snd (attempts s) @ buf (requestCh (pool s))"
    by (simp add: queue_inv_def)
  from q have "distinct (accepted s) \<longrightarrow> distinct (map snd (attempts s))"
    by simp
  with q inv(2) show ?thesis by (simp add: exit_inv_def)
qed

lemma drain_run_result:
  "exec drain_run (init_run pool1) =
     Some \<lparr> run_ctx = Context None,
            pool = \<lparr> size_wp = 1, workers = 1,
                     requestCh = \<lparr> buf = [], cap = 2, closed = True \<rparr>,
                     stopCh = \<lparr> buf = [], cap = 0, closed = True \<rparr>, workers_wg = 0 \<rparr>,
            starter = StartReturned, goroutines = [Returned],
            accepted = [rq1, rq2], attempts = [(0, rq1), (0, rq2)],
            results = [(0, rq1, Finished (Some (1, OKProcessedBy 0))), (0, rq2, Finished None)],
            faults = [] \<rparr>"
  by (simp add: drain_run_def pool1_def make_chan_def init_run_def start_spawn_def word_sless_alt
      submit_def chan_send_def worker_def chan_recv_def processRequest_def rq1_def rq2_def
      ctx_Done_def start_select_def chan_close_def start_wait_def)

text \<open>
  The run that is stopped through \<open>stopCh\<close>: both requests are processed, and the
  worker returns on the closed, empty queue.
\<close>

theorem accepted_items_taken_once_witness:
  "newWorkerPool 1 = Inr pool1 \<and>
   map_option accepted (exec drain_run (init_run pool1)) = Some [rq1, rq2] \<and>
   map_option attempts (exec drain_run (init_run pool1)) = Some [(0, rq1), (0, rq2)] \<and>
   map_option goroutines (exec drain_run (init_run pool1)) = Some [Returned] \<and>
   map_option drained (exec drain_run (init_run pool1)) = Some True \<and>
   distinct [rq1, rq2]"
proof -
  have n: "newWorkerPool 1 = Inr pool1"
    by (simp add: newWorkerPool_def pool1_def word_sless_alt)
  have d: "distinct [rq1, rq2]" by (simp add: rq1_def rq2_def)
  from accepted_items_taken_once [OF n drain_run_result] n d show ?thesis
    by (simp add: drain_run_result drained_def)
qed

text \<open>
  C3 as stated fails: a request is accepted, then the context is cancelled; the only
  worker takes the \<open>ctx.Done()\<close> case and returns, \<open>start\<close> closes the queue and
  returns, and the accepted request is still in the queue, never handed to
  \<open>processRequest\<close>.
\<close>

theorem worker_exit_counterexample:
  "newWorkerPool 1 = Inr pool1 \<and>
   map_option accepted (exec cancel_run (init_run pool1)) = Some [rq1] \<and>
   map_option attempts (exec cancel_run (init_run pool1)) = Some [] \<and>
   map_option goroutines (exec cancel_run (init_run pool1)) = Some [Returned] \<and>
   map_option starter (exec cancel_run (init_run pool1)) = Some StartReturned \<and>
   map_option (buf \<circ> requestCh \<circ> pool) (exec cancel_run (init_run pool1)) = Some [rq1]"
  by (simp add: cancel_run_def newWorkerPool_def pool1_def make_chan_def init_run_def
      start_spawn_def word_sless_alt submit_def chan_send_def worker_def chan_recv_def
      ctx_Done_def start_select_def chan_close_def start_wait_def)

end
